theory Spec2Isabelle
  imports Main "HOL-Library.Multiset" "HOL-Library.AList" "HOL-Library.Sublist"
begin

section \<open>Data model (src/src/App.tsx, lines 22-48)\<close>

text \<open>
  The two interfaces of the source, field by field. Numbers are the integers the API
  sends. \<open>language\<close> is declared \<^verbatim>\<open>string\<close>, but the API sends \<^verbatim>\<open>null\<close> for a repository
  with no detected language and the source guards every use with a truthiness test, so it
  is an option here: \<open>None\<close> is \<^verbatim>\<open>null\<close>, and \<open>Some []\<close> (the empty string) is falsy as well.
  \<open>license\<close> is \<^verbatim>\<open>{ name: string } | null\<close>; the option holds the name.
\<close>

record GitHubUser =
  avatar_url :: string
  name :: string
  bio :: string
  followers :: int
  following :: int
  location :: string
  blog :: string

record GitHubRepo =
  repo_id :: int
  repo_name :: string
  description :: string
  stargazers_count :: int
  forks_count :: int
  language :: "string option"
  open_issues_count :: int
  license :: "string option"
  html_url :: string
  updated_at :: string
  topics :: "string list"

text \<open>
  The component's state (the two \<^verbatim>\<open>useState\<close> cells) and, beside it, the trace of what
  \<^verbatim>\<open>fetchData\<close> did to the outside world: the requests it issued and the lines it wrote
  with \<^verbatim>\<open>console.error\<close>.
\<close>

datatype event = FetchUser | FetchRepos | ConsoleError string

record page =
  user :: "GitHubUser option"
  repos :: "GitHubRepo list"
  trace :: "event list"

definition initial_page :: page where
  "initial_page = \<lparr>user = None, repos = [], trace = []\<rparr>"

section \<open>Array.prototype.sort with a comparator\<close>

text \<open>
  A comparator returns a number; \<open>None\<close> is NaN, which \<^verbatim>\<open>sort\<close> reads as \<open>+0\<close>. The sort
  is stable, so for a consistent comparator its result is the one that repeated stable
  insertion builds: an element goes in front of the first later element it does not
  compare greater than. (For an inconsistent comparator, such as one that returns NaN for
  some pairs, the language leaves the order to the engine, and an engine's order can
  differ from the one built here; the result is a permutation either way, and nothing
  below relies on the order in that case.)
\<close>

definition nan_to_zero :: "int option \<Rightarrow> int" where
  "nan_to_zero v = (case v of None \<Rightarrow> 0 | Some n \<Rightarrow> n)"

fun js_insert :: "('a \<Rightarrow> 'a \<Rightarrow> int option) \<Rightarrow> 'a \<Rightarrow> 'a list \<Rightarrow> 'a list" where
  "js_insert cmp x [] = [x]"
| "js_insert cmp x (y # ys) =
     (if nan_to_zero (cmp x y) \<le> 0 then x # y # ys else y # js_insert cmp x ys)"

definition js_sort :: "('a \<Rightarrow> 'a \<Rightarrow> int option) \<Rightarrow> 'a list \<Rightarrow> 'a list" where
  "js_sort cmp xs = foldr (js_insert cmp) xs []"

section \<open>fetchData (lines 63-108)\<close>

text \<open>
  What a request can come back with: \<^verbatim>\<open>fetch\<close> rejects (a network-level error), or it
  resolves with a status and a body; \<^verbatim>\<open>.json()\<close> on the body rejects (\<open>BadJson\<close>) or
  yields the parsed value. The parsed repository body is an array of repositories or
  some other JSON value, kept as its text.
\<close>

datatype 'a body = BadJson | Json 'a

datatype 'a response = Rejected | Response nat "'a body"

datatype repos_json = JArray "GitHubRepo list" | JOther string

definition ok :: "nat \<Rightarrow> bool" where
  "ok status = (200 \<le> status \<and> status \<le> 299)"

definition emit :: "event \<Rightarrow> page \<Rightarrow> page" where
  "emit e s = s\<lparr>trace := trace s @ [e]\<rparr>"

definition by_stars :: "GitHubRepo \<Rightarrow> GitHubRepo \<Rightarrow> int option" where
  "by_stars a b = Some (stargazers_count b - stargazers_count a)"

text \<open>
  The two halves of the \<^verbatim>\<open>try\<close> block. \<open>Inl\<close> is an exception on its way to the
  \<^verbatim>\<open>catch\<close>, with the state reached when it was thrown; \<open>Inr\<close> is normal completion.
\<close>

definition fetch_user :: "GitHubUser response \<Rightarrow> page \<Rightarrow> page + page" where
  "fetch_user r s =
     (case r of
        Rejected \<Rightarrow> Inl (emit FetchUser s)
      | Response status b \<Rightarrow>
          (if \<not> ok status
           then Inr (emit (ConsoleError ''GitHub user fetch error:'') (emit FetchUser s))
           else (case b of
                   BadJson \<Rightarrow> Inl (emit FetchUser s)
                 | Json userData \<Rightarrow> Inr ((emit FetchUser s)\<lparr>user := Some userData\<rparr>))))"

definition fetch_repos :: "repos_json response \<Rightarrow> page \<Rightarrow> page + page" where
  "fetch_repos r s =
     (case r of
        Rejected \<Rightarrow> Inl (emit FetchRepos s)
      | Response status b \<Rightarrow>
          (if \<not> ok status
           then Inr (emit (ConsoleError ''GitHub repos fetch error:'') (emit FetchRepos s))
           else (case b of
                   BadJson \<Rightarrow> Inl (emit FetchRepos s)
                 | Json (JArray data) \<Rightarrow>
                     Inr ((emit FetchRepos s)\<lparr>repos := take 6 (js_sort by_stars data)\<rparr>)
                 | Json (JOther v) \<Rightarrow>
                     Inr ((emit (ConsoleError ''Unexpected response from GitHub API:'')
                             (emit FetchRepos s))\<lparr>repos := []\<rparr>))))"

definition catch :: "page \<Rightarrow> page" where
  "catch s = emit (ConsoleError ''Unexpected error fetching GitHub data:'') s"

definition fetchData :: "GitHubUser response \<Rightarrow> repos_json response \<Rightarrow> page \<Rightarrow> page" where
  "fetchData userResponse reposResponse s =
     (case fetch_user userResponse s of
        Inl s1 \<Rightarrow> catch s1
      | Inr s1 \<Rightarrow>
          (case fetch_repos reposResponse s1 of
             Inl s2 \<Rightarrow> catch s2
           | Inr s2 \<Rightarrow> s2))"

section \<open>What the hero and about sections show (lines 143-219)\<close>

definition hero_name :: "GitHubUser option \<Rightarrow> string" where
  "hero_name u = (case u of Some p \<Rightarrow> name p | None \<Rightarrow> ''Sohel Ansari'')"

definition hero_avatar :: "GitHubUser option \<Rightarrow> string option" where
  "hero_avatar u = map_option avatar_url u"

definition hero_bio :: "GitHubUser option \<Rightarrow> string option" where
  "hero_bio u = map_option bio u"

text \<open>The placeholder's apostrophe is U+2019, three bytes in UTF-8.\<close>

definition about_placeholder :: string where
  "about_placeholder =
     ''I'' @ [CHR 0xE2, CHR 0x80, CHR 0x99] @
     ''m a frontend developer specializing in crafting engaging, accessible, and intuitive user interfaces. With a focus on React, TypeScript, and TailwindCSS, I turn ideas into polished products that users love.''"

definition about_text :: "GitHubUser option \<Rightarrow> string" where
  "about_text u = (case u of Some p \<Rightarrow> bio p | None \<Rightarrow> about_placeholder)"

text \<open>The \<^verbatim>\<open>href\<close> of the blog link, or \<open>None\<close> when the link is not rendered.\<close>

definition blog_link :: "GitHubUser option \<Rightarrow> string option" where
  "blog_link u =
     (case u of
        None \<Rightarrow> None
      | Some p \<Rightarrow>
          (if blog p = [] then None
           else Some (if prefix ''http'' (blog p) then blog p else ''https://'' @ blog p)))"

section \<open>Plain objects used as dictionaries\<close>

text \<open>
  \<^verbatim>\<open>skillCounts\<close> and \<^verbatim>\<open>skillIconMap\<close> are object literals, so they inherit from
  \<^verbatim>\<open>Object.prototype\<close>. An object is modelled by the list of its own properties in
  creation order. A read of a missing key falls through to the prototype: its function
  properties, and the accessor \<^verbatim>\<open>__proto__\<close>, which returns the prototype itself.
  \<open>NativeFunction f\<close> is the built-in function named \<open>f\<close>.
\<close>

datatype jsval = Undefined | Num nat | Str string | NativeFunction string | ObjectPrototype

text \<open>The function properties of \<^verbatim>\<open>Object.prototype\<close>: the key, and the name of the
  function it holds (\<^verbatim>\<open>constructor\<close> holds \<^verbatim>\<open>Object\<close>).\<close>

definition object_prototype_functions :: "(string \<times> string) list" where
  "object_prototype_functions =
     [(''constructor'', ''Object''), (''hasOwnProperty'', ''hasOwnProperty''),
      (''isPrototypeOf'', ''isPrototypeOf''),
      (''propertyIsEnumerable'', ''propertyIsEnumerable''),
      (''toLocaleString'', ''toLocaleString''), (''toString'', ''toString''),
      (''valueOf'', ''valueOf''), (''__defineGetter__'', ''__defineGetter__''),
      (''__defineSetter__'', ''__defineSetter__''),
      (''__lookupGetter__'', ''__lookupGetter__''),
      (''__lookupSetter__'', ''__lookupSetter__'')]"

definition inherited_property :: "string \<Rightarrow> jsval" where
  "inherited_property k =
     (case map_of object_prototype_functions k of
        Some f \<Rightarrow> NativeFunction f
      | None \<Rightarrow> if k = ''__proto__'' then ObjectPrototype else Undefined)"

definition get_property :: "(string \<times> jsval) list \<Rightarrow> string \<Rightarrow> jsval" where
  "get_property obj k =
     (case map_of obj k of Some v \<Rightarrow> v | None \<Rightarrow> inherited_property k)"

text \<open>
  An assignment replaces the value of an own property where it stands, or creates the
  property after the others. The inherited function properties are writable data
  properties, so assigning to one creates an own property. \<^verbatim>\<open>__proto__\<close> is an accessor
  whose setter ignores a value that is neither an object nor \<^verbatim>\<open>null\<close>; the values
  assigned here are numbers and strings, so that assignment stores nothing.
\<close>

definition set_property :: "(string \<times> jsval) list \<Rightarrow> string \<Rightarrow> jsval \<Rightarrow> (string \<times> jsval) list" where
  "set_property obj k v = (if k = ''__proto__'' then obj else AList.update k v obj)"

text \<open>
  The text a built-in function converts to (as V8 prints it; other engines differ in
  white space only).
\<close>

definition native_source :: "string \<Rightarrow> string" where
  "native_source f = ''function '' @ f @ ''() { [native code] }''"

text \<open>\<^verbatim>\<open>(v || 0) + 1\<close>: a falsy value counts as 0; anything that is not a number is
  converted to a string, and \<^verbatim>\<open>+\<close> concatenates.\<close>

fun or_zero_plus_one :: "jsval \<Rightarrow> jsval" where
  "or_zero_plus_one Undefined = Num 1"
| "or_zero_plus_one (Num n) = Num (n + 1)"
| "or_zero_plus_one (Str s) = (if s = [] then Num 1 else Str (s @ ''1''))"
| "or_zero_plus_one (NativeFunction f) = Str (native_source f @ ''1'')"
| "or_zero_plus_one ObjectPrototype = Str ''[object Object]1''"

definition increment :: "(string \<times> jsval) list \<Rightarrow> string \<Rightarrow> (string \<times> jsval) list" where
  "increment obj k = set_property obj k (or_zero_plus_one (get_property obj k))"

text \<open>
  \<^verbatim>\<open>Object.entries\<close> lists the own properties whose key is an array index (the
  canonical decimal form of an integer below \<open>2^32 - 1\<close>) first, in ascending numeric
  order, then the others in creation order.
\<close>

definition digit_of :: "char \<Rightarrow> int option" where
  "digit_of c =
     map_of [(CHR ''0'', 0), (CHR ''1'', 1), (CHR ''2'', 2), (CHR ''3'', 3), (CHR ''4'', 4),
             (CHR ''5'', 5), (CHR ''6'', 6), (CHR ''7'', 7), (CHR ''8'', 8), (CHR ''9'', 9)] c"

fun digits_value :: "int \<Rightarrow> string \<Rightarrow> int option" where
  "digits_value acc [] = Some acc"
| "digits_value acc (c # cs) =
     (case digit_of c of None \<Rightarrow> None | Some d \<Rightarrow> digits_value (10 * acc + d) cs)"

definition array_index :: "string \<Rightarrow> int option" where
  "array_index s =
     (case s of
        [] \<Rightarrow> None
      | c # cs \<Rightarrow>
          (if c = CHR ''0'' \<and> cs \<noteq> [] then None
           else (case digits_value 0 s of
                   None \<Rightarrow> None
                 | Some n \<Rightarrow> if n < 4294967295 then Some n else None)))"

definition index_key :: "string \<times> 'a \<Rightarrow> int" where
  "index_key p = (case array_index (fst p) of None \<Rightarrow> 0 | Some n \<Rightarrow> n)"

definition object_entries :: "(string \<times> 'a) list \<Rightarrow> (string \<times> 'a) list" where
  "object_entries obj =
     sort_key index_key (filter (\<lambda>p. array_index (fst p) \<noteq> None) obj) @
     filter (\<lambda>p. array_index (fst p) = None) obj"

section \<open>aggregatedSkills (lines 113-131)\<close>

record skill =
  skill_name :: string
  skill_count :: jsval

definition count_repo :: "(string \<times> jsval) list \<Rightarrow> GitHubRepo \<Rightarrow> (string \<times> jsval) list" where
  "count_repo skillCounts repo =
     fold (\<lambda>topic obj. increment obj topic) (topics repo)
       (case language repo of
          None \<Rightarrow> skillCounts
        | Some l \<Rightarrow> if l = [] then skillCounts else increment skillCounts l)"

definition skillCounts_of :: "GitHubRepo list \<Rightarrow> (string \<times> jsval) list" where
  "skillCounts_of rs = fold (\<lambda>repo obj. count_repo obj repo) rs []"

text \<open>
  \<^verbatim>\<open>b.count - a.count\<close> converts both sides to numbers. Every string the loop stores
  starts with the text of a built-in function, which is no numeric literal, so a string
  converts to NaN.
\<close>

fun to_number :: "jsval \<Rightarrow> int option" where
  "to_number (Num n) = Some (int n)"
| "to_number v = None"

definition minus_number :: "int option \<Rightarrow> int option \<Rightarrow> int option" where
  "minus_number x y =
     (case x of None \<Rightarrow> None | Some a \<Rightarrow> (case y of None \<Rightarrow> None | Some b \<Rightarrow> Some (a - b)))"

definition by_count :: "skill \<Rightarrow> skill \<Rightarrow> int option" where
  "by_count a b = minus_number (to_number (skill_count b)) (to_number (skill_count a))"

definition aggregatedSkills :: "GitHubRepo list \<Rightarrow> skill list" where
  "aggregatedSkills rs =
     js_sort by_count
       (map (\<lambda>p. \<lparr>skill_name = fst p, skill_count = snd p\<rparr>) (object_entries (skillCounts_of rs)))"

text \<open>
  \<^verbatim>\<open>useMemo(..., [repos])\<close>: the cell keeps the dependency and the value of the last
  computation and recomputes when the dependency changed. React compares the array by
  identity; the arrays stored in the state are never mutated, so the same array has the
  same contents, and comparing contents only adds hits on equal lists.
\<close>

definition useMemo_aggregatedSkills ::
  "(GitHubRepo list \<times> skill list) option \<Rightarrow> GitHubRepo list
     \<Rightarrow> skill list \<times> (GitHubRepo list \<times> skill list) option" where
  "useMemo_aggregatedSkills cell rs =
     (case cell of
        None \<Rightarrow> (let v = aggregatedSkills rs in (v, Some (rs, v)))
      | Some (deps, v) \<Rightarrow>
          (if deps = rs then (v, cell)
           else (let v' = aggregatedSkills rs in (v', Some (rs, v')))))"

text \<open>The memo cell after a history of renders, each with the repository list it saw.\<close>

definition renders :: "GitHubRepo list list \<Rightarrow> (GitHubRepo list \<times> skill list) option" where
  "renders history = fold (\<lambda>rs cell. snd (useMemo_aggregatedSkills cell rs)) history None"

section \<open>The skills section (lines 50-60 and 228-240)\<close>

text \<open>An icon is a component with its class name, or a value inherited from the prototype.\<close>

datatype icon = Fa string string | Inherited jsval

definition skillIconMap :: "(string \<times> icon) list" where
  "skillIconMap =
     [(''JavaScript'', Fa ''FaJsSquare'' ''text-yellow-500''),
      (''TypeScript'', Fa ''FaJsSquare'' ''text-blue-400''),
      (''React'', Fa ''FaReact'' ''text-blue-600''),
      (''Node.js'', Fa ''FaNode'' ''text-green-600''),
      (''TailwindCSS'', Fa ''FaCss3Alt'' ''text-blue-300''),
      (''PostgreSQL'', Fa ''FaDatabase'' ''text-blue-800''),
      (''HTML5'', Fa ''FaHtml5'' ''text-red-600''),
      (''Git'', Fa ''FaGitAlt'' ''text-gray-700''),
      (''Python'', Fa ''FaPython'' ''text-blue-400'')]"

text \<open>\<^verbatim>\<open>skillIconMap[name] || <FaCode .../>\<close>: an inherited value is an object, so truthy.\<close>

definition icon_for :: "string \<Rightarrow> icon" where
  "icon_for n =
     (case map_of skillIconMap n of
        Some i \<Rightarrow> i
      | None \<Rightarrow>
          (case inherited_property n of
             Undefined \<Rightarrow> Fa ''FaCode'' ''text-gray-700''
           | v \<Rightarrow> Inherited v))"

record skill_view =
  view_name :: string
  view_icon :: icon

definition mostUsedSkills :: "skill list \<Rightarrow> skill_view list" where
  "mostUsedSkills agg =
     map (\<lambda>s. \<lparr>view_name = skill_name s, view_icon = icon_for (skill_name s)\<rparr>) agg"

definition remainingSkills :: "skill list \<Rightarrow> skill_view list" where
  "remainingSkills agg =
     map (\<lambda>p. \<lparr>view_name = fst p, view_icon = snd p\<rparr>)
       (filter (\<lambda>p. fst p \<notin> set (map skill_name agg)) (object_entries skillIconMap))"

definition finalSkills :: "skill list \<Rightarrow> skill_view list" where
  "finalSkills agg = mostUsedSkills agg @ remainingSkills agg"

section \<open>Notions the properties are stated with\<close>

text \<open>A repository's language, when it has one (neither \<^verbatim>\<open>null\<close> nor empty).\<close>

definition language_names :: "GitHubRepo \<Rightarrow> string list" where
  "language_names repo = (case language repo of None \<Rightarrow> [] | Some l \<Rightarrow> if l = [] then [] else [l])"

text \<open>Every name a repository list mentions, one entry per mention, in the order the
  loop meets them.\<close>

definition mentions :: "GitHubRepo list \<Rightarrow> string list" where
  "mentions rs = concat (map (\<lambda>repo. language_names repo @ topics repo) rs)"

definition stars_desc :: "GitHubRepo list \<Rightarrow> bool" where
  "stars_desc rs = sorted_wrt (\<lambda>a b. stargazers_count b \<le> stargazers_count a) rs"

text \<open>A repository with the given language, topics and stars; the other fields fixed.\<close>

definition example_repo :: "string option \<Rightarrow> string list \<Rightarrow> int \<Rightarrow> GitHubRepo" where
  "example_repo l ts n =
     \<lparr>repo_id = n, repo_name = ''repo'', description = [], stargazers_count = n,
      forks_count = 0, language = l, open_issues_count = 0, license = None,
      html_url = ''https://github.com/sohel22z/repo'', updated_at = ''2025-01-01T00:00:00Z'',
      topics = ts\<rparr>"

definition example_user :: "string \<Rightarrow> GitHubUser" where
  "example_user b =
     \<lparr>avatar_url = ''https://avatars.githubusercontent.com/u/1'', name = ''Sohel'',
      bio = ''Developer'', followers = 3, following = 4, location = ''India'', blog = b\<rparr>"

text \<open>The profile half of the \<^verbatim>\<open>try\<close> block runs to its end (nothing is thrown), so the
  repository request is issued.\<close>

definition completes :: "GitHubUser response \<Rightarrow> bool" where
  "completes r = (case r of Rejected \<Rightarrow> False | Response status b \<Rightarrow> \<not> ok status \<or> b \<noteq> BadJson)"

text \<open>A memo cell is valid when the value it holds is the aggregation of the dependency
  it holds.\<close>

definition memo_valid :: "(GitHubRepo list \<times> skill list) option \<Rightarrow> bool" where
  "memo_valid cell = (case cell of None \<Rightarrow> True | Some (deps, v) \<Rightarrow> v = aggregatedSkills deps)"

text \<open>A key is plain when a fresh object literal inherits nothing under it.\<close>

definition plain :: "string \<Rightarrow> bool" where
  "plain k = (inherited_property k = Undefined)"

text \<open>Both counts are numbers and the first is at least the second; a list of skills is in
  descending order of count when this holds of every earlier and later entry.\<close>

fun num_ge :: "jsval \<Rightarrow> jsval \<Rightarrow> bool" where
  "num_ge (Num m) (Num n) = (n \<le> m)"
| "num_ge a b = False"

definition counts_desc :: "skill list \<Rightarrow> bool" where
  "counts_desc agg = sorted_wrt (\<lambda>a b. num_ge (skill_count a) (skill_count b)) agg"

fun is_num :: "jsval \<Rightarrow> bool" where
  "is_num (Num n) = True"
| "is_num v = False"

text \<open>The key that the comparator \<open>by_count\<close> sorts by in ascending order.\<close>

definition count_key :: "skill \<Rightarrow> int" where
  "count_key s = - nan_to_zero (to_number (skill_count s))"

section \<open>Sorting\<close>

lemma mset_js_insert: "mset (js_insert cmp x ys) = add_mset x (mset ys)"
  by (induction ys) auto

lemma mset_js_sort: "mset (js_sort cmp xs) = mset xs"
  unfolding js_sort_def by (induction xs) (auto simp: mset_js_insert)

lemma js_insert_by_stars:
  "js_insert by_stars x ys = insort_key (\<lambda>r. - stargazers_count r) x ys"
  by (induction ys) (auto simp: by_stars_def nan_to_zero_def)

lemma js_sort_by_stars: "js_sort by_stars xs = sort_key (\<lambda>r. - stargazers_count r) xs"
  unfolding js_sort_def by (induction xs) (auto simp: js_insert_by_stars)

lemma stars_desc_js_sort: "stars_desc (js_sort by_stars xs)"
proof -
  have "sorted (map (\<lambda>r. - stargazers_count r) (sort_key (\<lambda>r. - stargazers_count r) xs))"
    by (rule sorted_sort_key)
  then show ?thesis
    by (simp add: stars_desc_def js_sort_by_stars sorted_map)
qed

lemma stars_desc_take: "stars_desc xs \<Longrightarrow> stars_desc (take n xs)"
  unfolding stars_desc_def by (rule sorted_wrt_take)

lemma stars_desc_split:
  "stars_desc xs \<Longrightarrow> x \<in> set (drop n xs) \<Longrightarrow> y \<in> set (take n xs) \<Longrightarrow>
   stargazers_count x \<le> stargazers_count y"
proof -
  assume a: "stars_desc xs" and x: "x \<in> set (drop n xs)" and y: "y \<in> set (take n xs)"
  have "stars_desc (take n xs @ drop n xs)" using a by simp
  then show ?thesis using x y unfolding stars_desc_def sorted_wrt_append by blast
qed

section \<open>fetchData\<close>

lemma fetch_user_completes:
  "completes ur \<Longrightarrow> \<exists>s1. fetch_user ur s = Inr s1 \<and> repos s1 = repos s \<and> set (trace s1) \<supseteq> set (trace s)"
  by (auto simp: completes_def fetch_user_def emit_def split: response.splits body.splits)

lemma fetchData_array:
  assumes "completes ur" "ok st"
  shows "repos (fetchData ur (Response st (Json (JArray data))) s) = take 6 (js_sort by_stars data)"
  using assms
  by (auto simp: completes_def fetchData_def fetch_user_def fetch_repos_def emit_def split: response.splits body.splits)


lemma length_js_sort: "length (js_sort cmp xs) = length xs"
  using mset_js_sort [of cmp xs] by (metis size_mset)

text \<open>
  Claim C3. When the body of the repository response is not an array, the repository
  list the page holds is empty: from the initial state whatever else happens, and from
  any state once the response is read (the profile half did not throw, the status is a
  success), because the branch stores the empty list.
\<close>

theorem non_array_body_gives_empty_repos:
  "repos (fetchData ur (Response st (Json (JOther v))) initial_page) = [] \<and>
   (completes ur \<and> ok st \<longrightarrow> repos (fetchData ur (Response st (Json (JOther v))) s) = [])"
  by (auto simp: completes_def fetchData_def fetch_user_def fetch_repos_def emit_def catch_def
      initial_page_def split: response.splits body.splits)

theorem non_array_body_gives_empty_repos_witness:
  "completes (Response 200 (Json (example_user ''sohel.dev''))) \<and> ok 200 \<and>
   repos (fetchData (Response 200 (Json (example_user ''sohel.dev'')))
            (Response 200 (Json (JOther ''{message: Not Found}'')))
            \<lparr>user = None, repos = [example_repo None [] 1], trace = []\<rparr>) = []"
proof -
  have c: "completes (Response 200 (Json (example_user ''sohel.dev'')))"
    by (simp add: completes_def)
  have k: "ok 200" by (simp add: ok_def)
  show ?thesis
    using c k non_array_body_gives_empty_repos
      [of "Response 200 (Json (example_user ''sohel.dev''))" 200 "''{message: Not Found}''"
          "\<lparr>user = None, repos = [example_repo None [] 1], trace = []\<rparr>"]
    by blast
qed

text \<open>
  Claim C4. When the repository response is read and its body is an array, the list kept
  is the first six of the array sorted by stars, descending: exactly six entries when
  more than six came, all of them when six or fewer came, and nothing left out has more
  stars than anything kept.
\<close>

theorem retained_repos_top_six:
  assumes "completes ur" and "ok st"
  shows "let kept = repos (fetchData ur (Response st (Json (JArray data))) s) in
           kept = take 6 (js_sort by_stars data) \<and>
           stars_desc kept \<and>
           (6 < length data \<longrightarrow> length kept = 6) \<and>
           (length data \<le> 6 \<longrightarrow> mset kept = mset data) \<and>
           (\<exists>rest. mset data = mset kept + mset rest \<and>
              (\<forall>x\<in>set rest. \<forall>y\<in>set kept. stargazers_count x \<le> stargazers_count y))"
proof -
  let ?sorted = "js_sort by_stars data"
  let ?kept = "take 6 ?sorted"
  have kept: "repos (fetchData ur (Response st (Json (JArray data))) s) = ?kept"
    using assms by (rule fetchData_array)
  have desc: "stars_desc ?kept"
    by (rule stars_desc_take [OF stars_desc_js_sort])
  have len: "6 < length data \<longrightarrow> length ?kept = 6"
    by (simp add: length_js_sort)
  have all: "length data \<le> 6 \<longrightarrow> mset ?kept = mset data"
    by (simp add: length_js_sort mset_js_sort)
  have "mset ?kept + mset (drop 6 ?sorted) = mset (?kept @ drop 6 ?sorted)"
    by (simp only: mset_append)
  also have "\<dots> = mset data"
    by (simp add: mset_js_sort)
  finally have split: "mset data = mset ?kept + mset (drop 6 ?sorted)"
    by (rule sym)
  have top: "\<forall>x\<in>set (drop 6 ?sorted). \<forall>y\<in>set ?kept. stargazers_count x \<le> stargazers_count y"
    using stars_desc_split [OF stars_desc_js_sort] by blast
  from split top have "\<exists>rest. mset data = mset ?kept + mset rest \<and>
      (\<forall>x\<in>set rest. \<forall>y\<in>set ?kept. stargazers_count x \<le> stargazers_count y)"
    by blast
  with kept desc len all show ?thesis
    by (simp add: Let_def)
qed

theorem retained_repos_top_six_witness:
  "completes (Response 404 BadJson) \<and> ok 200 \<and>
   map stargazers_count
     (repos (fetchData (Response 404 BadJson)
        (Response 200 (Json (JArray
           [example_repo None [] 3, example_repo None [] 9, example_repo None [] 1,
            example_repo None [] 7, example_repo None [] 5, example_repo None [] 8,
            example_repo None [] 2])))
        initial_page)) = [9, 8, 7, 5, 3, 2]"
proof -
  have c: "completes (Response 404 BadJson)"
    by (simp add: completes_def ok_def)
  have k: "ok 200" by (simp add: ok_def)
  show ?thesis
    using c k retained_repos_top_six [OF c k, of
           "[example_repo None [] 3, example_repo None [] 9, example_repo None [] 1,
            example_repo None [] 7, example_repo None [] 5, example_repo None [] 8,
            example_repo None [] 2]" initial_page]
    by (simp add: Let_def js_sort_def by_stars_def nan_to_zero_def example_repo_def)
qed

text \<open>
  Claim C6. A response whose status is not a success leaves its piece of state as it
  was: the profile after a failed profile response, the repository list after a failed
  repository response, whatever the other request does; from the initial state the
  profile stays unset and the list stays empty.
\<close>

theorem failed_status_leaves_state:
  "(\<not> ok st \<longrightarrow> user (fetchData (Response st b) rr s) = user s) \<and>
   (\<not> ok st \<longrightarrow> repos (fetchData ur (Response st b') s) = repos s) \<and>
   (\<not> ok st \<longrightarrow> user (fetchData (Response st b) rr initial_page) = None) \<and>
   (\<not> ok st \<longrightarrow> repos (fetchData ur (Response st b') initial_page) = [])"
  by (auto simp: fetchData_def fetch_user_def fetch_repos_def emit_def catch_def
      initial_page_def split: response.splits body.splits repos_json.splits)

theorem failed_status_leaves_state_witness:
  "\<not> ok 403 \<and>
   user (fetchData (Response 403 (Json (example_user ''sohel.dev'')))
           (Response 200 (Json (JArray [example_repo None [] 1]))) initial_page) = None \<and>
   repos (fetchData (Response 200 (Json (example_user ''sohel.dev'')))
           (Response 403 (Json (JArray [example_repo None [] 1]))) initial_page) = []"
proof -
  have k: "\<not> ok 403" by (simp add: ok_def)
  show ?thesis
    using k failed_status_leaves_state
      [of 403 "Json (example_user ''sohel.dev'')"
          "Response 200 (Json (JArray [example_repo None [] 1]))" initial_page
          "Response 200 (Json (example_user ''sohel.dev''))"
          "Json (JArray [example_repo None [] 1])"]
    by blast
qed

text \<open>
  Claim C7. When the profile response has a failing status and the repository response
  succeeds with an array, the repository request is still issued and its result stored
  (the first six by stars), while the profile stays unset, so the hero shows the fixed
  name, the about section shows the placeholder paragraph, and the avatar, the hero's
  biography line and the blog link are not rendered.
\<close>

theorem profile_failure_still_loads_repos:
  assumes "\<not> ok st" and "ok st'" and "user s = None"
  shows "let s' = fetchData (Response st b) (Response st' (Json (JArray data))) s in
           repos s' = take 6 (js_sort by_stars data) \<and>
           length (repos s') = min 6 (length data) \<and>
           trace s' = trace s @ [FetchUser, ConsoleError ''GitHub user fetch error:'', FetchRepos] \<and>
           user s' = None \<and>
           hero_name (user s') = ''Sohel Ansari'' \<and>
           about_text (user s') = about_placeholder \<and>
           hero_avatar (user s') = None \<and> hero_bio (user s') = None \<and>
           blog_link (user s') = None"
  using assms
  by (simp add: Let_def fetchData_def fetch_user_def fetch_repos_def emit_def hero_name_def
      about_text_def hero_avatar_def hero_bio_def blog_link_def length_js_sort)

theorem profile_failure_still_loads_repos_witness:
  "\<not> ok 404 \<and> ok 200 \<and> user initial_page = None \<and>
   map repo_id (repos (fetchData (Response 404 BadJson)
      (Response 200 (Json (JArray [example_repo (Some ''Go'') [''cli''] 2,
                                   example_repo (Some ''Go'') [] 5])))
      initial_page)) = [5, 2] \<and>
   hero_name (user (fetchData (Response 404 BadJson)
      (Response 200 (Json (JArray [example_repo (Some ''Go'') [''cli''] 2,
                                   example_repo (Some ''Go'') [] 5])))
      initial_page)) = ''Sohel Ansari''"
proof -
  let ?data = "[example_repo (Some ''Go'') [''cli''] 2, example_repo (Some ''Go'') [] 5]"
  have a: "\<not> ok 404" by (simp add: ok_def)
  have b: "ok 200" by (simp add: ok_def)
  have c: "user initial_page = None" by (simp add: initial_page_def)
  have t: "repos (fetchData (Response 404 BadJson) (Response 200 (Json (JArray ?data))) initial_page)
             = take 6 (js_sort by_stars ?data) \<and>
           hero_name (user (fetchData (Response 404 BadJson)
             (Response 200 (Json (JArray ?data))) initial_page)) = ''Sohel Ansari''"
    using profile_failure_still_loads_repos [OF a b c, of BadJson ?data]
    unfolding Let_def by blast
  have e: "map repo_id (take 6 (js_sort by_stars ?data)) = [5, 2]"
    by (simp add: js_sort_def by_stars_def nan_to_zero_def example_repo_def)
  show ?thesis
    using a b c t e by simp
qed

text \<open>
  Claim C8. When the profile request itself is rejected, control goes from the first
  \<^verbatim>\<open>await\<close> to the \<^verbatim>\<open>catch\<close>: the trace holds the profile request and the report of
  the exception and no repository request, and the repository list is what it was (empty
  from the initial state), whatever the repository endpoint would have answered.
\<close>

theorem rejected_profile_request_skips_repos:
  "repos (fetchData Rejected rr s) = repos s \<and>
   user (fetchData Rejected rr s) = user s \<and>
   trace (fetchData Rejected rr s) =
     trace s @ [FetchUser, ConsoleError ''Unexpected error fetching GitHub data:''] \<and>
   repos (fetchData Rejected rr initial_page) = [] \<and>
   FetchRepos \<notin> set (trace (fetchData Rejected rr initial_page))"
  by (simp add: fetchData_def fetch_user_def catch_def emit_def initial_page_def)

text \<open>
  Claim C10. The blog link is rendered exactly when the profile is set and its blog
  field is not empty; its target is the blog value when that starts with \<^verbatim>\<open>http\<close>, and
  \<^verbatim>\<open>https://\<close> followed by the blog value otherwise.
\<close>

theorem blog_link_target:
  "(blog_link u \<noteq> None) = (\<exists>p. u = Some p \<and> blog p \<noteq> []) \<and>
   (blog p \<noteq> [] \<and> prefix ''http'' (blog p) \<longrightarrow> blog_link (Some p) = Some (blog p)) \<and>
   (blog p \<noteq> [] \<and> \<not> prefix ''http'' (blog p) \<longrightarrow>
      blog_link (Some p) = Some (''https://'' @ blog p))"
  by (auto simp: blog_link_def split: option.splits)

theorem blog_link_target_witness:
  "blog (example_user ''sohel.dev'') \<noteq> [] \<and>
   \<not> prefix ''http'' (blog (example_user ''sohel.dev'')) \<and>
   blog_link (Some (example_user ''sohel.dev'')) = Some ''https://sohel.dev'' \<and>
   blog (example_user ''http://sohel.dev'') \<noteq> [] \<and>
   prefix ''http'' (blog (example_user ''http://sohel.dev'')) \<and>
   blog_link (Some (example_user ''http://sohel.dev'')) = Some ''http://sohel.dev''"
proof -
  have a: "blog (example_user ''sohel.dev'') \<noteq> [] \<and>
           \<not> prefix ''http'' (blog (example_user ''sohel.dev''))"
    by (simp add: example_user_def)
  have b: "blog (example_user ''http://sohel.dev'') \<noteq> [] \<and>
           prefix ''http'' (blog (example_user ''http://sohel.dev''))"
    by (simp add: example_user_def)
  show ?thesis
    using a b blog_link_target [of None "example_user ''sohel.dev''"]
      blog_link_target [of None "example_user ''http://sohel.dev''"]
    by (simp add: example_user_def)
qed

section \<open>The keys of skillCounts\<close>

lemma count_repo_flat:
  "count_repo obj repo = fold (\<lambda>k obj. increment obj k) (language_names repo @ topics repo) obj"
  by (simp add: count_repo_def language_names_def split: option.splits)

lemma fold_count_repo_flat:
  "fold (\<lambda>repo obj. count_repo obj repo) rs obj = fold (\<lambda>k obj. increment obj k) (mentions rs) obj"
  by (induction rs arbitrary: obj) (simp_all add: mentions_def count_repo_flat)

lemma skillCounts_of_flat:
  "skillCounts_of rs = fold (\<lambda>k obj. increment obj k) (mentions rs) []"
  by (simp add: skillCounts_of_def fold_count_repo_flat)

lemma distinct_increment:
  "distinct (map fst obj) \<Longrightarrow> distinct (map fst (increment obj k))"
  by (simp add: increment_def set_property_def distinct_update)

lemma distinct_fold_increment:
  "distinct (map fst obj) \<Longrightarrow> distinct (map fst (fold (\<lambda>k obj. increment obj k) ks obj))"
  by (induction ks arbitrary: obj) (simp_all add: distinct_increment)

lemma distinct_skillCounts_of: "distinct (map fst (skillCounts_of rs))"
  by (simp add: skillCounts_of_flat distinct_fold_increment)

lemma keys_increment:
  "fst ` set (increment obj k) = fst ` set obj \<union> ({k} - {''__proto__''})"
  by (auto simp: increment_def set_property_def dom_update)

lemma keys_fold_increment:
  "fst ` set (fold (\<lambda>k obj. increment obj k) ks obj) = fst ` set obj \<union> (set ks - {''__proto__''})"
  by (induction ks arbitrary: obj) (auto simp: keys_increment)

lemma keys_skillCounts_of: "fst ` set (skillCounts_of rs) = set (mentions rs) - {''__proto__''}"
  by (simp add: skillCounts_of_flat keys_fold_increment)

lemma mset_object_entries: "mset (object_entries obj) = mset obj"
  by (simp add: object_entries_def)

lemma mset_aggregated_names:
  "mset (map skill_name (aggregatedSkills rs)) = mset (map fst (skillCounts_of rs))"
proof -
  have "mset (map skill_name (aggregatedSkills rs)) =
        image_mset skill_name (mset (aggregatedSkills rs))"
    by simp
  also have "\<dots> = image_mset skill_name
      (image_mset (\<lambda>p. \<lparr>skill_name = fst p, skill_count = snd p\<rparr>) (mset (skillCounts_of rs)))"
    by (simp add: aggregatedSkills_def mset_js_sort mset_object_entries)
  also have "\<dots> = image_mset fst (mset (skillCounts_of rs))"
    by (simp add: image_mset.compositionality comp_def)
  finally show ?thesis by simp
qed

lemma distinct_aggregated_names: "distinct (map skill_name (aggregatedSkills rs))"
  using mset_aggregated_names [of rs] distinct_skillCounts_of [of rs]
  by (metis mset_eq_imp_distinct_iff)

lemma set_aggregated_names:
  "set (map skill_name (aggregatedSkills rs)) = set (mentions rs) - {''__proto__''}"
proof -
  have "set (map skill_name (aggregatedSkills rs)) = set (map fst (skillCounts_of rs))"
    using mset_aggregated_names [of rs] by (rule mset_eq_setD)
  then show ?thesis by (simp add: keys_skillCounts_of)
qed

lemma entries_skillIconMap: "object_entries skillIconMap = skillIconMap"
  by (simp add: object_entries_def skillIconMap_def array_index_def digit_of_def)

lemma distinct_skillIconMap: "distinct (map fst skillIconMap)"
  by (simp add: skillIconMap_def)

lemma mostUsed_names: "map view_name (mostUsedSkills agg) = map skill_name agg"
  by (simp add: mostUsedSkills_def comp_def)

lemma remaining_names:
  "map view_name (remainingSkills agg) =
   filter (\<lambda>n. n \<notin> set (map skill_name agg)) (map fst skillIconMap)"
  by (simp add: remainingSkills_def entries_skillIconMap filter_map comp_def)


lemma final_names_facts:
  "distinct (map skill_name (aggregatedSkills rs)) \<and>
   set (map view_name (remainingSkills (aggregatedSkills rs))) \<inter>
     set (map skill_name (aggregatedSkills rs)) = {} \<and>
   distinct (map view_name (finalSkills (aggregatedSkills rs)))"
proof -
  let ?agg = "aggregatedSkills rs"
  have a: "distinct (map skill_name ?agg)"
    by (rule distinct_aggregated_names)
  have b: "set (map view_name (remainingSkills ?agg)) \<inter> set (map skill_name ?agg) = {}"
    by (auto simp only: remaining_names set_filter)
  have c: "distinct (map view_name (remainingSkills ?agg))"
    by (simp only: remaining_names distinct_filter distinct_skillIconMap)
  have "distinct (map view_name (finalSkills ?agg))"
    using a b c by (simp only: finalSkills_def map_append distinct_append mostUsed_names) blast
  with a b show ?thesis by blast
qed



text \<open>
  Claim C9. The names of the final skill list are pairwise distinct: the aggregated names
  are the keys of one object, so no name occurs twice among them; the entries appended
  from the lookup table share no name with the aggregated ones; and so no name occurs
  twice in the whole list.
\<close>

theorem final_skill_names_distinct:
  "distinct (map skill_name (aggregatedSkills rs)) \<and>
   set (map view_name (remainingSkills (aggregatedSkills rs))) \<inter>
     set (map skill_name (aggregatedSkills rs)) = {} \<and>
   distinct (map view_name (finalSkills (aggregatedSkills rs)))"
  by (rule final_names_facts)


section \<open>The memo cell\<close>

lemma memo_step:
  "memo_valid cell \<Longrightarrow>
   fst (useMemo_aggregatedSkills cell rs) = aggregatedSkills rs \<and>
   memo_valid (snd (useMemo_aggregatedSkills cell rs))"
  by (auto simp: memo_valid_def useMemo_aggregatedSkills_def Let_def split: option.splits)

lemma memo_valid_fold:
  "memo_valid cell \<Longrightarrow>
   memo_valid (fold (\<lambda>rs cell. snd (useMemo_aggregatedSkills cell rs)) history cell)"
  by (induction history arbitrary: cell) (simp_all add: memo_step)

lemma memo_valid_renders: "memo_valid (renders history)"
  unfolding renders_def by (rule memo_valid_fold) (simp add: memo_valid_def)

text \<open>
  Claim C5. The aggregation is a function of the repository list alone. The only state the
  hook keeps between calls is the memo cell; after any history of renders the value
  returned for a repository list is the aggregation of that list, a second call on the
  same list returns the same list of skills (names, counts and order), and two different
  histories give the same value.
\<close>

theorem aggregation_depends_on_repos_only:
  "fst (useMemo_aggregatedSkills (renders history) rs) = aggregatedSkills rs \<and>
   fst (useMemo_aggregatedSkills (snd (useMemo_aggregatedSkills (renders history) rs)) rs) =
     fst (useMemo_aggregatedSkills (renders history) rs) \<and>
   fst (useMemo_aggregatedSkills (renders history') rs) =
     fst (useMemo_aggregatedSkills (renders history) rs)"
proof -
  have a: "fst (useMemo_aggregatedSkills (renders h) rs) = aggregatedSkills rs" for h
    using memo_step [OF memo_valid_renders] by blast
  have "memo_valid (snd (useMemo_aggregatedSkills (renders history) rs))"
    using memo_step [OF memo_valid_renders] by blast
  then have b: "fst (useMemo_aggregatedSkills
      (snd (useMemo_aggregatedSkills (renders history) rs)) rs) = aggregatedSkills rs"
    using memo_step by blast
  show ?thesis
    by (simp only: a b)
qed

section \<open>The counts\<close>

lemma not_plain_proto: "\<not> plain ''__proto__''"
  by (simp add: plain_def inherited_property_def object_prototype_functions_def)

lemma plain_not_proto: "plain k \<Longrightarrow> k \<noteq> ''__proto__''"
  using not_plain_proto by blast

lemma map_of_increment_other:
  "k' \<noteq> k \<Longrightarrow> map_of (increment obj k) k' = map_of obj k'"
  by (simp add: increment_def set_property_def update_conv')

lemma map_of_increment_plain:
  "plain k \<Longrightarrow> map_of obj k = (if n = 0 then None else Some (Num n)) \<Longrightarrow>
   map_of (increment obj k) k = Some (Num (Suc n))"
  using plain_not_proto [of k]
  by (simp add: increment_def set_property_def update_conv' get_property_def plain_def)

lemma map_of_fold_increment_plain:
  "plain k \<Longrightarrow> map_of obj k = (if n = 0 then None else Some (Num n)) \<Longrightarrow>
   map_of (fold (\<lambda>k obj. increment obj k) ks obj) k =
     (if n + count_list ks k = 0 then None else Some (Num (n + count_list ks k)))"
proof (induction ks arbitrary: obj n)
  case Nil
  then show ?case by simp
next
  case (Cons a ks)
  show ?case
  proof (cases "a = k")
    case True
    have "map_of (increment obj k) k = (if Suc n = 0 then None else Some (Num (Suc n)))"
      using map_of_increment_plain [OF Cons.prems] by simp
    from Cons.IH [OF Cons.prems(1) this] True show ?thesis by simp
  next
    case False
    have "map_of (increment obj a) k = (if n = 0 then None else Some (Num n))"
      using False Cons.prems(2) by (simp add: map_of_increment_other)
    from Cons.IH [OF Cons.prems(1) this] False show ?thesis by simp
  qed
qed

lemma skillCounts_of_plain:
  "plain k \<Longrightarrow>
   map_of (skillCounts_of rs) k =
     (if count_list (mentions rs) k = 0 then None else Some (Num (count_list (mentions rs) k)))"
  using map_of_fold_increment_plain [of k "[]" 0 "mentions rs"]
  by (simp add: skillCounts_of_flat)

lemma set_js_sort: "set (js_sort cmp xs) = set xs"
  using mset_js_sort [of cmp xs] by (rule mset_eq_setD)

lemma set_object_entries: "set (object_entries obj) = set obj"
  using mset_object_entries [of obj] by (rule mset_eq_setD)

lemma aggregated_entry_iff:
  "\<lparr>skill_name = k, skill_count = c\<rparr> \<in> set (aggregatedSkills rs) \<longleftrightarrow>
   map_of (skillCounts_of rs) k = Some c"
proof -
  have "set (aggregatedSkills rs) =
        (\<lambda>p. \<lparr>skill_name = fst p, skill_count = snd p\<rparr>) ` set (skillCounts_of rs)"
    by (simp add: aggregatedSkills_def set_js_sort set_object_entries)
  moreover have "(k, c) \<in> set (skillCounts_of rs) \<Longrightarrow>
      \<lparr>skill_name = k, skill_count = c\<rparr> \<in>
        (\<lambda>p. \<lparr>skill_name = fst p, skill_count = snd p\<rparr>) ` set (skillCounts_of rs)"
    by (rule image_eqI [where x = "(k, c)"]) simp_all
  ultimately have "\<lparr>skill_name = k, skill_count = c\<rparr> \<in> set (aggregatedSkills rs) \<longleftrightarrow>
             (k, c) \<in> set (skillCounts_of rs)"
    by auto
  then show ?thesis
    by (simp add: distinct_skillCounts_of)
qed

lemma aggregated_plain_entry:
  assumes "plain k"
  shows "\<lparr>skill_name = k, skill_count = c\<rparr> \<in> set (aggregatedSkills rs) \<longleftrightarrow>
         k \<in> set (mentions rs) \<and> c = Num (count_list (mentions rs) k)"
  using skillCounts_of_plain [OF assms, of rs]
  by (auto simp: aggregated_entry_iff count_list_0_iff)


lemma js_insert_by_count_num:
  "is_num (skill_count x) \<Longrightarrow> \<forall>y\<in>set ys. is_num (skill_count y) \<Longrightarrow>
   js_insert by_count x ys = insort_key count_key x ys"
proof (induction ys)
  case Nil
  then show ?case by simp
next
  case (Cons y ys)
  from Cons.prems obtain m n where "skill_count x = Num m" "skill_count y = Num n"
    by (cases "skill_count x"; cases "skill_count y") auto
  with Cons show ?case
    by (simp add: by_count_def minus_number_def nan_to_zero_def count_key_def)
qed

lemma js_sort_by_count_num:
  "\<forall>y\<in>set xs. is_num (skill_count y) \<Longrightarrow> js_sort by_count xs = sort_key count_key xs"
proof (induction xs)
  case Nil
  then show ?case by (simp add: js_sort_def)
next
  case (Cons x xs)
  then have "js_sort by_count xs = sort_key count_key xs" by simp
  moreover have "js_sort by_count (x # xs) = js_insert by_count x (js_sort by_count xs)"
    by (simp add: js_sort_def)
  ultimately show ?case
    using Cons.prems by (simp add: js_insert_by_count_num)
qed

lemma counts_desc_js_sort:
  assumes "\<forall>y\<in>set xs. is_num (skill_count y)"
  shows "counts_desc (js_sort by_count xs)"
proof -
  have "sorted (map count_key (sort_key count_key xs))"
    by (rule sorted_sort_key)
  then have "sorted_wrt (\<lambda>a b. count_key a \<le> count_key b) (sort_key count_key xs)"
    by (simp add: sorted_map)
  moreover have "count_key a \<le> count_key b \<Longrightarrow> num_ge (skill_count a) (skill_count b)"
    if "a \<in> set (sort_key count_key xs)" "b \<in> set (sort_key count_key xs)" for a b
  proof -
    from that assms obtain m n where "skill_count a = Num m" "skill_count b = Num n"
      by (cases "skill_count a"; cases "skill_count b") auto
    then show "count_key a \<le> count_key b \<Longrightarrow> num_ge (skill_count a) (skill_count b)"
      by (simp add: count_key_def nan_to_zero_def)
  qed
  ultimately have "sorted_wrt (\<lambda>a b. num_ge (skill_count a) (skill_count b))
      (sort_key count_key xs)"
    by (rule sorted_wrt_mono_rel [rotated]) blast
  then show ?thesis
    by (simp add: counts_desc_def js_sort_by_count_num [OF assms])
qed

lemma aggregatedSkills_all_plain:
  assumes "\<forall>k\<in>set (mentions rs). plain k"
  shows "set (aggregatedSkills rs) =
           (\<lambda>k. \<lparr>skill_name = k, skill_count = Num (count_list (mentions rs) k)\<rparr>) `
             set (mentions rs)"
    and "counts_desc (aggregatedSkills rs)"
proof -
  have names: "skill_name s \<in> set (mentions rs)" if "s \<in> set (aggregatedSkills rs)" for s
    using that set_aggregated_names [of rs] by auto
  have entry: "skill_count s = Num (count_list (mentions rs) (skill_name s))"
    if "s \<in> set (aggregatedSkills rs)" for s
  proof -
    obtain k c where s: "s = \<lparr>skill_name = k, skill_count = c\<rparr>"
      by (cases s) auto
    have "plain k"
      using names [OF that] assms s by auto
    then show ?thesis
      using that by (simp add: s aggregated_plain_entry)
  qed
  show "set (aggregatedSkills rs) =
          (\<lambda>k. \<lparr>skill_name = k, skill_count = Num (count_list (mentions rs) k)\<rparr>) `
            set (mentions rs)"
  proof (intro set_eqI iffI)
    fix s assume s: "s \<in> set (aggregatedSkills rs)"
    have "s = \<lparr>skill_name = skill_name s,
               skill_count = Num (count_list (mentions rs) (skill_name s))\<rparr>"
      using entry [OF s] by (cases s) auto
    then show "s \<in> (\<lambda>k. \<lparr>skill_name = k, skill_count = Num (count_list (mentions rs) k)\<rparr>) `
        set (mentions rs)"
      using names [OF s] by (rule image_eqI)
  next
    fix s assume "s \<in> (\<lambda>k. \<lparr>skill_name = k, skill_count = Num (count_list (mentions rs) k)\<rparr>) `
        set (mentions rs)"
    then obtain k where k: "k \<in> set (mentions rs)"
      and s: "s = \<lparr>skill_name = k, skill_count = Num (count_list (mentions rs) k)\<rparr>"
      by blast
    from k assms have "plain k" by blast
    then show "s \<in> set (aggregatedSkills rs)"
      using k by (simp add: s aggregated_plain_entry)
  qed
  have "\<forall>y\<in>set (map (\<lambda>p. \<lparr>skill_name = fst p, skill_count = snd p\<rparr>)
      (object_entries (skillCounts_of rs))). is_num (skill_count y)"
  proof
    fix y assume "y \<in> set (map (\<lambda>p. \<lparr>skill_name = fst p, skill_count = snd p\<rparr>)
      (object_entries (skillCounts_of rs)))"
    then have "y \<in> set (aggregatedSkills rs)"
      by (simp add: aggregatedSkills_def set_js_sort)
    from entry [OF this] show "is_num (skill_count y)" by simp
  qed
  then show "counts_desc (aggregatedSkills rs)"
    unfolding aggregatedSkills_def by (rule counts_desc_js_sort)
qed

lemma aggregatedSkills_example:
  "aggregatedSkills [example_repo (Some ''Go'') [''cli''] 1, example_repo (Some ''Go'') [] 2] =
     [\<lparr>skill_name = ''Go'', skill_count = Num 2\<rparr>, \<lparr>skill_name = ''cli'', skill_count = Num 1\<rparr>]"
  by code_simp

text \<open>
  Claim C1, at the input \<^verbatim>\<open>[{language: "Go", topics: ["constructor"]}]\<close>. The name
  \<^verbatim>\<open>constructor\<close> is mentioned once, so its count should be 1. The read of
  \<^verbatim>\<open>skillCounts["constructor"]\<close> finds the inherited function \<^verbatim>\<open>Object\<close>, which is truthy,
  and adding 1 to it concatenates: the count stored is a string. (For lists that mention
  plain keys only, \<open>aggregatedSkills_all_plain\<close> above gives the counts and the order
  the claim states, and \<open>aggregatedSkills_example\<close> is the claim's own example.)
\<close>

theorem aggregatedSkills_constructor_topic:
  "aggregatedSkills [example_repo (Some ''Go'') [''constructor''] 1] =
     [\<lparr>skill_name = ''Go'', skill_count = Num 1\<rparr>,
      \<lparr>skill_name = ''constructor'',
       skill_count = Str ''function Object() { [native code] }1''\<rparr>] \<and>
   count_list (mentions [example_repo (Some ''Go'') [''constructor''] 1]) ''constructor'' = 1"
  by code_simp




end
